theory Spec2Isabelle
  imports Complex_Main "HOL-Library.Word"
begin

unbundle bit_operations_syntax

section \<open>Data model (virtual\_joystick\_controller.h)\<close>

text \<open>
  The C++ type \<open>int\<close> is modelled by \<open>int\<close>: pixel coordinates and widget sizes stay far
  from the 32-bit limits, and no operation below relies on wrap-around.  The C++ type
  \<open>char\<close> is modelled by \<open>8 word\<close>, which leaves open whether the platform reads it as
  signed or unsigned.  A value of the C++ type \<open>double\<close> is a \<open>real\<close>.  The squares that
  \<open>contains\<close> compares are exact in a \<open>double\<close> for coordinates and radii below
  \<open>2^26\<close>, and so is the comparison.  The two coordinates that the clamping branch of
  \<open>mouseMoveEvent\<close> computes through \<open>sqrt\<close>, \<open>acos\<close>, \<open>cos\<close> and \<open>sin\<close> are not exact:
  the \<open>double\<close> the program obtains is the exact value plus the rounding error that the
  platform's arithmetic has accumulated, and that error decides the pixel whenever the
  exact value is whole or nearly so.  The model takes the two rounding errors as a
  parameter of the handler (\<open>rounding\<close>), so that every result of the program is the
  result of the model for some value of the parameter.
\<close>

type_synonym cchar = "8 word"

text \<open>\<open>struct Circle\<close>: the only data member is \<open>m_radius\<close>.\<close>

record Circle =
  m_radius :: int

text \<open>Qt's \<open>QPoint\<close> and \<open>QSize\<close>: pairs of \<open>int\<close>.\<close>

record QPoint =
  xp :: int
  yp :: int

record QSize =
  sz_width :: int
  sz_height :: int

text \<open>\<open>enum JoystickMode\<close>, with the enumerators in the order of the header.\<close>

datatype JoystickMode = NoAxis | XAxisOnly | YAxisOnly | AllAxis

text \<open>
  The base class \<open>QWidget\<close> contributes the widget's geometry; \<open>class Joystick\<close> extends
  it with its private data members.
\<close>

record QWidget =
  width :: int
  height :: int

record Joystick = QWidget +
  m_x :: cchar
  m_y :: cchar
  m_backToZero :: bool
  m_mode :: JoystickMode
  m_joystick :: Circle
  m_controller :: Circle
  m_controllerPosition :: QPoint

text \<open>
  A mouse event as the widget reads it: the set of buttons held (\<open>event->buttons()\<close>)
  and the pointer position in widget coordinates (\<open>event->x()\<close>, \<open>event->y()\<close>).
\<close>

record QMouseEvent =
  buttons :: "32 word"
  ev_x :: int
  ev_y :: int

definition LeftButton :: "32 word" where
  "LeftButton = 1"

text \<open>
  The rounding errors of one call of the move handler: \<open>err_x\<close> is the \<open>double\<close> computed
  for \<open>m_joystick.radius() * cos(angle) + width() / 2\<close> minus the exact value of that
  expression, \<open>err_y\<close> the same for \<open>m_joystick.radius() * sin(angle) + height() / 2\<close>.
  \<open>no_rounding\<close> is a call in which both doubles are exact.
\<close>

record rounding =
  err_x :: real
  err_y :: real

definition no_rounding :: rounding where
  "no_rounding = \<lparr> err_x = 0, err_y = 0 \<rparr>"

text \<open>
  What a slot does besides changing the widget: the signals it emits and the repaint it
  requests, in order.  The signal \<open>valueChanged\<close> is declared with \<open>char\<close> parameters.
\<close>

datatype signal = pressed | valueChanged cchar cchar | update

text \<open>
  The ways an event handler can fail: \<open>Terminate\<close> is the \<open>throw;\<close> with no exception
  in flight (\<open>std::terminate\<close>); \<open>DomainError\<close> is a division by a zero distance or an
  arccosine outside \<open>[-1, 1]\<close>, whose not-a-number result cannot be converted to \<open>int\<close>.
\<close>

datatype failure = Terminate | DomainError

section \<open>Arithmetic of the source language\<close>

text \<open>Division of C++ \<open>int\<close>s truncates towards zero.\<close>

definition cpp_div :: "int \<Rightarrow> int \<Rightarrow> int" where
  "cpp_div a b = sgn a * sgn b * (\<bar>a\<bar> div \<bar>b\<bar>)"

text \<open>The implicit conversion of a \<open>double\<close> to \<open>int\<close> drops the fractional part.\<close>

definition double_to_int :: "real \<Rightarrow> int" where
  "double_to_int v = (if 0 \<le> v then \<lfloor>v\<rfloor> else \<lceil>v\<rceil>)"

text \<open>The implicit conversion of an \<open>int\<close> to \<open>char\<close> keeps the low eight bits.\<close>

definition int_to_char :: "int \<Rightarrow> cchar" where
  "int_to_char v = word_of_int v"

section \<open>The degree-of-freedom operators\<close>

text \<open>\<open>static_cast<int>\<close> of an enumerator, and \<open>static_cast<JoystickMode>\<close> back.\<close>

fun mode_to_int :: "JoystickMode \<Rightarrow> 32 word" where
  "mode_to_int NoAxis = 0"
| "mode_to_int XAxisOnly = 1"
| "mode_to_int YAxisOnly = 2"
| "mode_to_int AllAxis = 3"

definition mode_of_int :: "32 word \<Rightarrow> JoystickMode option" where
  "mode_of_int v =
     (if v = 0 then Some NoAxis
      else if v = 1 then Some XAxisOnly
      else if v = 2 then Some YAxisOnly
      else if v = 3 then Some AllAxis
      else None)"

text \<open>\<open>operator|\<close> (from \<open>DEFINE_ENUM_OR_OPERATOR\<close>) and \<open>operator&\<close>.\<close>

definition mode_or :: "JoystickMode \<Rightarrow> JoystickMode \<Rightarrow> JoystickMode option" where
  "mode_or lhs rhs = mode_of_int (mode_to_int lhs OR mode_to_int rhs)"

definition mode_and :: "JoystickMode \<Rightarrow> JoystickMode \<Rightarrow> JoystickMode option" where
  "mode_and lhs rhs = mode_of_int (mode_to_int lhs AND mode_to_int rhs)"

section \<open>The widget (virtual\_joystick\_controller.cpp)\<close>

text \<open>
  The constructor.  The geometry of the base widget is Qt's business and is taken as a
  parameter; \<open>Circle()\<close> sets the radius to 0 and \<open>QPoint()\<close> is the point \<open>(0, 0)\<close>.
\<close>

definition Joystick_ctor :: "int \<Rightarrow> int \<Rightarrow> Joystick" where
  "Joystick_ctor w h =
     \<lparr> width = w, height = h,
       m_x = 0, m_y = 0, m_backToZero = True, m_mode = AllAxis,
       m_joystick = \<lparr> m_radius = 0 \<rparr>, m_controller = \<lparr> m_radius = 0 \<rparr>,
       m_controllerPosition = \<lparr> xp = 0, yp = 0 \<rparr> \<rparr>"

definition Joystick_x :: "Joystick \<Rightarrow> cchar" where
  "Joystick_x s = m_x s"

definition Joystick_y :: "Joystick \<Rightarrow> cchar" where
  "Joystick_y s = m_y s"

definition mode :: "Joystick \<Rightarrow> JoystickMode" where
  "mode s = m_mode s"

definition setMode :: "JoystickMode \<Rightarrow> Joystick \<Rightarrow> Joystick \<times> signal list" where
  "setMode md s = (s\<lparr> m_mode := md \<rparr>, [update])"

definition setBackToZero :: "bool \<Rightarrow> Joystick \<Rightarrow> Joystick" where
  "setBackToZero enable s = s\<lparr> m_backToZero := enable \<rparr>"

definition backToZero :: "Joystick \<Rightarrow> bool" where
  "backToZero s = m_backToZero s"

definition getCenter :: "int \<Rightarrow> int \<Rightarrow> QPoint" where
  "getCenter w h = \<lparr> xp = cpp_div w 2, yp = cpp_div h 2 \<rparr>"

text \<open>\<open>contains(int x, int y, int radius)\<close>: the three squares are computed by \<open>pow\<close>.\<close>

definition contains :: "int \<Rightarrow> int \<Rightarrow> int \<Rightarrow> bool" where
  "contains x y radius \<longleftrightarrow>
     (real_of_int x)\<^sup>2 + (real_of_int y)\<^sup>2 \<le> (real_of_int radius)\<^sup>2"

definition translateTopLeftToCenter :: "QPoint \<Rightarrow> QSize \<Rightarrow> QPoint" where
  "translateTopLeftToCenter pos boundingSize =
     \<lparr> xp = xp pos - cpp_div (sz_width boundingSize) 2,
       yp = yp pos - cpp_div (sz_height boundingSize) 2 \<rparr>"

definition getRadius :: "int \<Rightarrow> int \<Rightarrow> int" where
  "getRadius w h = cpp_div (min w h) 2 - cpp_div (min w h) 6"

definition resizeEvent :: "Joystick \<Rightarrow> Joystick" where
  "resizeEvent s =
     (let radius = getRadius (width s) (height s)
      in s\<lparr> m_joystick := (m_joystick s)\<lparr> m_radius := radius \<rparr>,
            m_controller := (m_controller s)\<lparr> m_radius := cpp_div radius 2 \<rparr>,
            m_controllerPosition := getCenter (width s) (height s) \<rparr>)"

definition mouseReleaseEvent :: "Joystick \<Rightarrow> Joystick \<times> signal list" where
  "mouseReleaseEvent s =
     (if m_backToZero s
      then (s\<lparr> m_controllerPosition := getCenter (width s) (height s) \<rparr>, [update])
      else (s, []))"

text \<open>
  \<open>Joystick::mouseMoveEvent\<close>.  The handler returns at once unless exactly the left
  button is held.  Otherwise it recentres the pointer, moves the handle as the mode
  says, emits \<open>valueChanged(x, y)\<close> (the \<open>int\<close> arguments converted to \<open>char\<close>) and asks
  for a repaint.  The \<open>default\<close> label of the \<open>switch\<close> is reached by \<open>NoAxis\<close> only.
  In the clamping branch the two sums are the exact values of the source's expressions;
  the \<open>double\<close>s that \<open>setX\<close> and \<open>setY\<close> receive and truncate are these plus the rounding
  errors of the call.
\<close>

definition mouseMoveEvent ::
    "rounding \<Rightarrow> QMouseEvent \<Rightarrow> Joystick \<Rightarrow> failure + Joystick \<times> signal list" where
  "mouseMoveEvent fe event s =
     (if buttons event \<noteq> LeftButton then Inr (s, [])
      else
        let relativeMousePosition = \<lparr> xp = ev_x event, yp = ev_y event \<rparr>;
            x = xp relativeMousePosition - cpp_div (width s) 2;
            y = yp relativeMousePosition - cpp_div (height s) 2;
            r = m_radius (m_joystick s);
            emitted = [valueChanged (int_to_char x) (int_to_char y), update]
        in case m_mode s of
             AllAxis \<Rightarrow>
               if contains x y r
               then Inr (s\<lparr> m_controllerPosition := relativeMousePosition \<rparr>, emitted)
               else
                 let radius = sqrt ((real_of_int x)\<^sup>2 + (real_of_int y)\<^sup>2)
                 in if radius = 0 \<or> real_of_int x / radius < - 1 \<or> 1 < real_of_int x / radius
                    then Inl DomainError
                    else
                      let angle0 = arccos (real_of_int x / radius);
                          angle1 = (if y > 0 then angle0 + (pi - angle0) * 2 else angle0);
                          angle = - angle1
                      in Inr (s\<lparr> m_controllerPosition :=
                                 \<lparr> xp = double_to_int (real_of_int r * cos angle
                                                        + real_of_int (cpp_div (width s) 2)
                                                        + err_x fe),
                                   yp = double_to_int (real_of_int r * sin angle
                                                        + real_of_int (cpp_div (height s) 2)
                                                        + err_y fe) \<rparr> \<rparr>,
                              emitted)
           | XAxisOnly \<Rightarrow>
               if x < r \<and> x > - r
               then Inr (s\<lparr> m_controllerPosition :=
                           (m_controllerPosition s)\<lparr> xp := xp relativeMousePosition \<rparr> \<rparr>, emitted)
               else if x > 0
               then Inr (s\<lparr> m_controllerPosition :=
                           (m_controllerPosition s)\<lparr> xp := cpp_div (width s) 2 + r \<rparr> \<rparr>, emitted)
               else Inr (s\<lparr> m_controllerPosition :=
                           (m_controllerPosition s)\<lparr> xp := cpp_div (width s) 2 - r \<rparr> \<rparr>, emitted)
           | YAxisOnly \<Rightarrow>
               if y < r \<and> y > - r
               then Inr (s\<lparr> m_controllerPosition :=
                           (m_controllerPosition s)\<lparr> yp := yp relativeMousePosition \<rparr> \<rparr>, emitted)
               else if y > 0
               then Inr (s\<lparr> m_controllerPosition :=
                           (m_controllerPosition s)\<lparr> yp := cpp_div (height s) 2 + r \<rparr> \<rparr>, emitted)
               else Inr (s\<lparr> m_controllerPosition :=
                           (m_controllerPosition s)\<lparr> yp := cpp_div (height s) 2 - r \<rparr> \<rparr>, emitted)
           | NoAxis \<Rightarrow> Inl Terminate)"

section \<open>The vocabulary of the specification\<close>

text \<open>
  The specification speaks of positions relative to the widget's centre, the widget
  stores them in widget coordinates.  \<open>rawOffset\<close> is the recentred pointer of
  \<open>mouseMoveEvent\<close>, \<open>handlePos\<close> the recentred handle, \<open>travelRadius\<close> the radius of the
  outer circle.
\<close>

definition widgetSize :: "Joystick \<Rightarrow> QSize" where
  "widgetSize s = \<lparr> sz_width = width s, sz_height = height s \<rparr>"

definition rawOffset :: "QMouseEvent \<Rightarrow> Joystick \<Rightarrow> QPoint" where
  "rawOffset event s =
     translateTopLeftToCenter \<lparr> xp = ev_x event, yp = ev_y event \<rparr> (widgetSize s)"

definition handlePos :: "Joystick \<Rightarrow> QPoint" where
  "handlePos s = translateTopLeftToCenter (m_controllerPosition s) (widgetSize s)"

definition travelRadius :: "Joystick \<Rightarrow> int" where
  "travelRadius s = m_radius (m_joystick s)"

text \<open>The Euclidean distance of a recentred point from the origin.\<close>

definition distance :: "QPoint \<Rightarrow> real" where
  "distance p = sqrt ((real_of_int (xp p))\<^sup>2 + (real_of_int (yp p))\<^sup>2)"


section \<open>Auxiliary facts\<close>

subsection \<open>Integer and character arithmetic\<close>

text \<open>
  On non-negative operands the truncating division is the flooring one.
\<close>

lemma cpp_div_nonneg: "0 \<le> a \<Longrightarrow> 0 < b \<Longrightarrow> cpp_div a b = a div b"
  by (cases "a = 0") (simp_all add: cpp_div_def)

lemma getRadius_nonneg: "0 \<le> w \<Longrightarrow> 0 \<le> h \<Longrightarrow> 0 \<le> getRadius w h"
  by (simp add: getRadius_def cpp_div_nonneg)

text \<open>
  The conversion to \<open>int\<close> moves a value by less than one, also after the widget's
  centre has been added and subtracted again; a rounding error before the conversion
  adds its size to that.
\<close>

lemma trunc_less_one: "\<bar>real_of_int (double_to_int w) - w\<bar> < 1"
  unfolding double_to_int_def by (auto; linarith)

lemma trunc_recentred:
  assumes "\<bar>e\<bar> \<le> d"
  shows "\<bar>real_of_int (double_to_int (v + real_of_int c + e) - c) - v\<bar> < 1 + d"
proof -
  have "\<bar>real_of_int (double_to_int (v + real_of_int c + e)) - (v + real_of_int c + e)\<bar> < 1"
    by (rule trunc_less_one)
  with assms show ?thesis by simp
qed

lemma double_to_int_between:
  assumes "0 \<le> n" and "real_of_int n \<le> v" and "v < real_of_int n + 1"
  shows "double_to_int v = n"
proof -
  have "0 \<le> v" using assms by linarith
  moreover have "\<lfloor>v\<rfloor> = n" using assms by linarith
  ultimately show ?thesis by (simp add: double_to_int_def)
qed

lemma double_to_int_of_int: "0 \<le> n \<Longrightarrow> double_to_int (real_of_int n) = n"
  by (simp add: double_to_int_def)

text \<open>
  The conversion to \<open>char\<close> reduces modulo 256; a value that fits a signed \<open>char\<close> is kept.
\<close>

lemma uint_int_to_char: "uint (int_to_char v) = v mod 256"
  by (simp add: int_to_char_def uint_word_of_int)

lemma sint_int_to_char:
  assumes "- 128 \<le> v" and "v \<le> 127"
  shows "sint (int_to_char v) = v"
proof -
  have "sint (word_of_int v :: 8 word) = (v + 128) mod 256 - 128"
    by (simp add: int_word_sint)
  also have "\<dots> = v" using assms by simp
  finally show ?thesis by (simp add: int_to_char_def)
qed

subsection \<open>Recentred coordinates\<close>

lemma rawOffset_simps:
  "xp (rawOffset event s) = ev_x event - cpp_div (width s) 2"
  "yp (rawOffset event s) = ev_y event - cpp_div (height s) 2"
  by (simp_all add: rawOffset_def translateTopLeftToCenter_def widgetSize_def)

lemma handlePos_simps:
  "xp (handlePos s) = xp (m_controllerPosition s) - cpp_div (width s) 2"
  "yp (handlePos s) = yp (m_controllerPosition s) - cpp_div (height s) 2"
  by (simp_all add: handlePos_def translateTopLeftToCenter_def widgetSize_def)

subsection \<open>The circle test\<close>

lemma contains_origin: "contains 0 0 r"
  by (simp add: contains_def)

lemma outside_distance_pos:
  assumes "\<not> contains x y r"
  shows "0 < sqrt ((real_of_int x)\<^sup>2 + (real_of_int y)\<^sup>2)"
proof -
  have "x \<noteq> 0 \<or> y \<noteq> 0" using assms contains_origin by fastforce
  then have "0 < (real_of_int x)\<^sup>2 + (real_of_int y)\<^sup>2"
    by (auto simp: sum_power2_gt_zero_iff)
  then show ?thesis by simp
qed

lemma contains_iff_distance:
  assumes "0 \<le> r"
  shows "contains (xp p) (yp p) r \<longleftrightarrow> distance p \<le> real_of_int r"
  unfolding contains_def distance_def
  using assms by (auto intro: real_le_lsqrt dest: sqrt_le_D)

lemma distance_le_contains:
  assumes "distance p \<le> real_of_int r"
  shows "contains (xp p) (yp p) r"
proof -
  have "0 \<le> distance p" by (simp add: distance_def)
  with assms have "0 \<le> r" by linarith
  with assms show ?thesis by (simp add: contains_iff_distance)
qed

subsection \<open>The direction computation\<close>

text \<open>
  For a point at positive distance the cosine and the sine of the final angle are the
  point's coordinates divided by its distance.
\<close>

lemma ratio_bounds:
  fixes a b :: real
  assumes "0 < sqrt (a\<^sup>2 + b\<^sup>2)"
  shows "\<bar>a / sqrt (a\<^sup>2 + b\<^sup>2)\<bar> \<le> 1"
proof -
  have "\<bar>a\<bar> \<le> sqrt (a\<^sup>2 + b\<^sup>2)" by (rule real_sqrt_ge_abs1)
  with assms show ?thesis by (simp add: abs_divide)
qed

lemma sin_arccos_ratio:
  fixes a b :: real
  assumes "0 < sqrt (a\<^sup>2 + b\<^sup>2)"
  shows "sin (arccos (a / sqrt (a\<^sup>2 + b\<^sup>2))) = \<bar>b\<bar> / sqrt (a\<^sup>2 + b\<^sup>2)"
proof -
  let ?d = "sqrt (a\<^sup>2 + b\<^sup>2)"
  have d2: "?d\<^sup>2 = a\<^sup>2 + b\<^sup>2" by simp
  have "sin (arccos (a / ?d)) = sqrt (1 - (a / ?d)\<^sup>2)"
    using ratio_bounds[OF assms] by (rule sin_arccos_abs)
  also have "1 - (a / ?d)\<^sup>2 = (b / ?d)\<^sup>2"
  proof -
    have "a\<^sup>2 + b\<^sup>2 \<noteq> 0" using assms by auto
    then have "a\<^sup>2 / (a\<^sup>2 + b\<^sup>2) + b\<^sup>2 / (a\<^sup>2 + b\<^sup>2) = 1"
      by (simp add: add_divide_distrib [symmetric])
    then have "1 - a\<^sup>2 / (a\<^sup>2 + b\<^sup>2) = b\<^sup>2 / (a\<^sup>2 + b\<^sup>2)"
      by linarith
    then show ?thesis by (simp add: power_divide)
  qed
  also have "sqrt ((b / ?d)\<^sup>2) = \<bar>b\<bar> / ?d"
    using assms by (simp add: abs_divide del: real_sqrt_gt_0_iff)
  finally show ?thesis .
qed

lemma clamp_cos:
  fixes a b :: real
  assumes "0 < sqrt (a\<^sup>2 + b\<^sup>2)"
  shows "cos (- (if 0 < b
                 then arccos (a / sqrt (a\<^sup>2 + b\<^sup>2)) +
                      (pi - arccos (a / sqrt (a\<^sup>2 + b\<^sup>2))) * 2
                 else arccos (a / sqrt (a\<^sup>2 + b\<^sup>2))))
         = a / sqrt (a\<^sup>2 + b\<^sup>2)"
proof -
  let ?t = "arccos (a / sqrt (a\<^sup>2 + b\<^sup>2))"
  have c: "cos ?t = a / sqrt (a\<^sup>2 + b\<^sup>2)"
    using ratio_bounds[OF assms] by (rule cos_arccos_abs)
  have "?t + (pi - ?t) * 2 = 2 * pi - ?t" by simp
  then have "cos (?t + (pi - ?t) * 2) = cos ?t"
    by (simp add: cos_diff)
  with c show ?thesis by simp
qed

lemma clamp_sin:
  fixes a b :: real
  assumes "0 < sqrt (a\<^sup>2 + b\<^sup>2)"
  shows "sin (- (if 0 < b
                 then arccos (a / sqrt (a\<^sup>2 + b\<^sup>2)) +
                      (pi - arccos (a / sqrt (a\<^sup>2 + b\<^sup>2))) * 2
                 else arccos (a / sqrt (a\<^sup>2 + b\<^sup>2))))
         = b / sqrt (a\<^sup>2 + b\<^sup>2)"
proof -
  let ?t = "arccos (a / sqrt (a\<^sup>2 + b\<^sup>2))"
  have s: "sin ?t = \<bar>b\<bar> / sqrt (a\<^sup>2 + b\<^sup>2)"
    using assms by (rule sin_arccos_ratio)
  have "?t + (pi - ?t) * 2 = 2 * pi - ?t" by simp
  then have "sin (?t + (pi - ?t) * 2) = - sin ?t"
    by (simp add: sin_diff)
  with s show ?thesis by simp
qed

subsection \<open>The branches of the move handler\<close>

lemma not_LeftButton_ignored:
  assumes "buttons event \<noteq> LeftButton"
  shows "mouseMoveEvent fe event s = Inr (s, [])"
  using assms by (simp add: mouseMoveEvent_def)

lemma AllAxis_inside:
  assumes "m_mode s = AllAxis" and "buttons event = LeftButton"
    and "contains (xp (rawOffset event s)) (yp (rawOffset event s)) (travelRadius s)"
  shows "mouseMoveEvent fe event s =
           Inr (s\<lparr> m_controllerPosition := \<lparr> xp = ev_x event, yp = ev_y event \<rparr> \<rparr>,
                [valueChanged (int_to_char (xp (rawOffset event s)))
                              (int_to_char (yp (rawOffset event s))), update])"
  using assms by (simp add: mouseMoveEvent_def Let_def rawOffset_simps travelRadius_def)

lemma AllAxis_outside:
  assumes "m_mode s = AllAxis" and "buttons event = LeftButton"
    and "\<not> contains (xp (rawOffset event s)) (yp (rawOffset event s)) (travelRadius s)"
  shows "mouseMoveEvent fe event s =
           Inr (s\<lparr> m_controllerPosition :=
                   \<lparr> xp = double_to_int (real_of_int (travelRadius s)
                                * (real_of_int (xp (rawOffset event s)) / distance (rawOffset event s))
                              + real_of_int (cpp_div (width s) 2) + err_x fe),
                     yp = double_to_int (real_of_int (travelRadius s)
                                * (real_of_int (yp (rawOffset event s)) / distance (rawOffset event s))
                              + real_of_int (cpp_div (height s) 2) + err_y fe) \<rparr> \<rparr>,
                [valueChanged (int_to_char (xp (rawOffset event s)))
                              (int_to_char (yp (rawOffset event s))), update])"
proof -
  let ?x = "xp (rawOffset event s)" and ?y = "yp (rawOffset event s)"
  let ?d = "sqrt ((real_of_int ?x)\<^sup>2 + (real_of_int ?y)\<^sup>2)"
  let ?t = "arccos (real_of_int ?x / ?d)"
  let ?angle = "- (if 0 < real_of_int ?y then ?t + (pi - ?t) * 2 else ?t)"
  have pos: "0 < ?d" using assms(3) by (rule outside_distance_pos)
  have bnd: "\<bar>real_of_int ?x / ?d\<bar> \<le> 1" using pos by (rule ratio_bounds)
  have guard: "\<not> (?d = 0 \<or> real_of_int ?x / ?d < - 1 \<or> 1 < real_of_int ?x / ?d)"
    using pos bnd by linarith
  have c: "cos ?angle = real_of_int ?x / ?d"
    using pos by (rule clamp_cos)
  have sn: "sin ?angle = real_of_int ?y / ?d"
    using pos by (rule clamp_sin)
  have unf: "mouseMoveEvent fe event s =
     Inr (s\<lparr> m_controllerPosition :=
             \<lparr> xp = double_to_int (real_of_int (travelRadius s) * cos ?angle
                                    + real_of_int (cpp_div (width s) 2) + err_x fe),
               yp = double_to_int (real_of_int (travelRadius s) * sin ?angle
                                    + real_of_int (cpp_div (height s) 2) + err_y fe) \<rparr> \<rparr>,
          [valueChanged (int_to_char ?x) (int_to_char ?y), update])"
    using assms guard
    by (simp add: mouseMoveEvent_def Let_def rawOffset_simps travelRadius_def
        del: real_sqrt_eq_0_iff)
  show ?thesis unfolding unf c sn distance_def ..
qed

lemma AllAxis_total:
  assumes "m_mode s = AllAxis" and "buttons event = LeftButton"
  shows "\<exists>s'. mouseMoveEvent fe event s =
           Inr (s', [valueChanged (int_to_char (xp (rawOffset event s)))
                                  (int_to_char (yp (rawOffset event s))), update])"
proof (cases "contains (xp (rawOffset event s)) (yp (rawOffset event s)) (travelRadius s)")
  case True
  from AllAxis_inside [OF assms True, of fe] show ?thesis by simp
next
  case False
  from AllAxis_outside [OF assms False, of fe] show ?thesis by simp
qed

lemma XAxisOnly_move:
  assumes "m_mode s = XAxisOnly" and "buttons event = LeftButton"
  shows "mouseMoveEvent fe event s =
           Inr (s\<lparr> m_controllerPosition := (m_controllerPosition s)
                    \<lparr> xp := cpp_div (width s) 2 +
                        (if - travelRadius s < xp (rawOffset event s) \<and> xp (rawOffset event s) < travelRadius s
                         then xp (rawOffset event s)
                         else if 0 < xp (rawOffset event s) then travelRadius s else - travelRadius s) \<rparr> \<rparr>,
                [valueChanged (int_to_char (xp (rawOffset event s)))
                              (int_to_char (yp (rawOffset event s))), update])"
  using assms by (simp add: mouseMoveEvent_def Let_def rawOffset_simps travelRadius_def)

lemma YAxisOnly_move:
  assumes "m_mode s = YAxisOnly" and "buttons event = LeftButton"
  shows "mouseMoveEvent fe event s =
           Inr (s\<lparr> m_controllerPosition := (m_controllerPosition s)
                    \<lparr> yp := cpp_div (height s) 2 +
                        (if - travelRadius s < yp (rawOffset event s) \<and> yp (rawOffset event s) < travelRadius s
                         then yp (rawOffset event s)
                         else if 0 < yp (rawOffset event s) then travelRadius s else - travelRadius s) \<rparr> \<rparr>,
                [valueChanged (int_to_char (xp (rawOffset event s)))
                              (int_to_char (yp (rawOffset event s))), update])"
  using assms by (simp add: mouseMoveEvent_def Let_def rawOffset_simps travelRadius_def)

lemma NoAxis_move:
  assumes "m_mode s = NoAxis"
  shows "mouseMoveEvent fe event s = (if buttons event = LeftButton then Inl Terminate else Inr (s, []))"
  using assms by (simp add: mouseMoveEvent_def Let_def)

subsection \<open>A concrete widget\<close>

text \<open>
  A widget of 150 by 150 pixels after its first resize: the centre is \<open>(75, 75)\<close>, the
  travel radius is \<open>75 - 25 = 50\<close> and the handle's radius 25.
\<close>

lemma resized_150:
  "resizeEvent (Joystick_ctor 150 150) =
     \<lparr> width = 150, height = 150,
       m_x = 0, m_y = 0, m_backToZero = True, m_mode = AllAxis,
       m_joystick = \<lparr> m_radius = 50 \<rparr>, m_controller = \<lparr> m_radius = 25 \<rparr>,
       m_controllerPosition = \<lparr> xp = 75, yp = 75 \<rparr> \<rparr>"
  by (simp add: resizeEvent_def Joystick_ctor_def getRadius_def getCenter_def cpp_div_def)

lemma sqrt_10000: "sqrt 10000 = 100"
  by (rule real_sqrt_unique) simp_all

lemma sqrt_2500: "sqrt 2500 = 50"
  by (rule real_sqrt_unique) simp_all

lemma sqrt_90000: "sqrt 90000 = 300"
  by (rule real_sqrt_unique) simp_all

lemma sqrt_10900_bounds: "521 / 5 < sqrt 10900 \<and> sqrt 10900 \<le> 106"
proof -
  have "(521 / 5 :: real)\<^sup>2 < 10900" by (simp add: power2_eq_square)
  then have a: "521 / 5 < sqrt 10900" by (rule real_less_rsqrt)
  have "(10900 :: real) \<le> 106\<^sup>2" by simp
  then have b: "sqrt 10900 \<le> 106" by (intro real_le_lsqrt) simp_all
  from a b show ?thesis by simp
qed

text \<open>
  Travel radius 50 and pointer offset \<open>(100, 30)\<close>: the circle point is about
  \<open>(47.89, 14.37)\<close>, far enough from whole numbers for the stored pixel to be the same
  for every rounding error up to a hundredth.
\<close>

lemma clamp_100_30:
  assumes "\<bar>err_x fe\<bar> \<le> 1 / 100" and "\<bar>err_y fe\<bar> \<le> 1 / 100"
  shows "mouseMoveEvent fe \<lparr> buttons = LeftButton, ev_x = 175, ev_y = 105 \<rparr>
           (resizeEvent (Joystick_ctor 150 150))
         = Inr ((resizeEvent (Joystick_ctor 150 150))
                  \<lparr> m_controllerPosition := \<lparr> xp = 122, yp = 89 \<rparr> \<rparr>,
                [valueChanged 100 30, update])"
proof -
  let ?s = "resizeEvent (Joystick_ctor 150 150)"
  let ?e = "\<lparr> buttons = LeftButton, ev_x = 175, ev_y = 105 \<rparr>"
  have raw: "rawOffset ?e ?s = \<lparr> xp = 100, yp = 30 \<rparr>"
    by (simp add: resized_150 rawOffset_def translateTopLeftToCenter_def widgetSize_def cpp_div_def)
  have r: "travelRadius ?s = 50" by (simp add: resized_150 travelRadius_def)
  have d: "distance \<lparr> xp = 100, yp = 30 \<rparr> = sqrt 10900" by (simp add: distance_def)
  have out: "\<not> contains (xp (rawOffset ?e ?s)) (yp (rawOffset ?e ?s)) (travelRadius ?s)"
    by (simp add: raw r contains_def)
  have pos: "0 < sqrt 10900" by simp
  have qx: "4701 / 100 \<le> 5000 / sqrt 10900" "5000 / sqrt 10900 < 4799 / 100"
    using sqrt_10900_bounds by (simp_all add: pos_le_divide_eq pos_divide_less_eq del: real_sqrt_gt_0_iff)
  have qy: "1401 / 100 \<le> 1500 / sqrt 10900" "1500 / sqrt 10900 < 1499 / 100"
    using sqrt_10900_bounds by (simp_all add: pos_le_divide_eq pos_divide_less_eq del: real_sqrt_gt_0_iff)
  have px: "double_to_int (real_of_int 50 * (real_of_int 100 / sqrt 10900) + real_of_int 75 + err_x fe) = 122"
    using qx assms(1) by (intro double_to_int_between) simp_all
  have py: "double_to_int (real_of_int 50 * (real_of_int 30 / sqrt 10900) + real_of_int 75 + err_y fe) = 89"
    using qy assms(2) by (intro double_to_int_between) simp_all
  have mode: "m_mode ?s = AllAxis" by (simp add: resized_150)
  have btn: "buttons ?e = LeftButton" by simp
  have ctr: "cpp_div (width ?s) 2 = 75" "cpp_div (height ?s) 2 = 75"
    by (simp_all add: resized_150 cpp_div_def)
  have "mouseMoveEvent fe ?e ?s =
          Inr (?s\<lparr> m_controllerPosition :=
                  \<lparr> xp = double_to_int (real_of_int 50 * (real_of_int 100 / sqrt 10900)
                                         + real_of_int 75 + err_x fe),
                    yp = double_to_int (real_of_int 50 * (real_of_int 30 / sqrt 10900)
                                         + real_of_int 75 + err_y fe) \<rparr> \<rparr>,
               [valueChanged 100 30, update])"
    using AllAxis_outside [OF mode btn out, of fe] by (simp add: raw r d ctr int_to_char_def)
  then show ?thesis unfolding px py .
qed

text \<open>
  Travel radius 50 and pointer offset \<open>(60, 80)\<close>: the circle point is \<open>(30, 40)\<close>, the
  exact value of the X expression is the whole number 105, and the smallest negative
  rounding error makes the stored pixel 104, one to the left of the circle point.
\<close>

lemma clamp_60_80:
  "mouseMoveEvent \<lparr> err_x = - (1 / 10 ^ 14), err_y = 0 \<rparr>
       \<lparr> buttons = LeftButton, ev_x = 135, ev_y = 155 \<rparr> (resizeEvent (Joystick_ctor 150 150))
     = Inr ((resizeEvent (Joystick_ctor 150 150))
              \<lparr> m_controllerPosition := \<lparr> xp = 104, yp = 115 \<rparr> \<rparr>,
            [valueChanged 60 80, update])"
proof -
  let ?fe = "\<lparr> err_x = - (1 / 10 ^ 14), err_y = 0 \<rparr>"
  let ?s = "resizeEvent (Joystick_ctor 150 150)"
  let ?e = "\<lparr> buttons = LeftButton, ev_x = 135, ev_y = 155 \<rparr>"
  have raw: "rawOffset ?e ?s = \<lparr> xp = 60, yp = 80 \<rparr>"
    by (simp add: resized_150 rawOffset_def translateTopLeftToCenter_def widgetSize_def cpp_div_def)
  have r: "travelRadius ?s = 50" by (simp add: resized_150 travelRadius_def)
  have d: "distance \<lparr> xp = 60, yp = 80 \<rparr> = 100" by (simp add: distance_def sqrt_10000)
  have out: "\<not> contains (xp (rawOffset ?e ?s)) (yp (rawOffset ?e ?s)) (travelRadius ?s)"
    by (simp add: raw r contains_def)
  have px: "double_to_int (105 - 1 / 10 ^ 14) = 104"
    by (intro double_to_int_between) simp_all
  have py: "double_to_int 115 = 115"
    using double_to_int_of_int [of 115] by simp
  have mode: "m_mode ?s = AllAxis" by (simp add: resized_150)
  have btn: "buttons ?e = LeftButton" by simp
  have ctr: "cpp_div (width ?s) 2 = 75" "cpp_div (height ?s) 2 = 75"
    by (simp_all add: resized_150 cpp_div_def)
  have "mouseMoveEvent ?fe ?e ?s =
          Inr (?s\<lparr> m_controllerPosition :=
                  \<lparr> xp = double_to_int (105 - 1 / 10 ^ 14), yp = double_to_int 115 \<rparr> \<rparr>,
               [valueChanged 60 80, update])"
    using AllAxis_outside [OF mode btn out, of ?fe] by (simp add: raw r d ctr int_to_char_def)
  then show ?thesis unfolding px py .
qed

section \<open>Dragging with both axes free\<close>

text \<open>
  C1 (as amended).  With both axes free, the left button held, a travel radius
  \<open>\<ge> 0\<close> and the pointer farther from the centre than the travel radius, the move
  succeeds, and each coordinate of the new handle position differs from the
  corresponding coordinate of the point where the ray from the centre through the
  pointer meets the circle of the travel radius, that is
  \<open>travelRadius * rawOffset / distance rawOffset\<close>, by less than one pixel plus the
  rounding error of the \<open>double\<close> computed for that coordinate.  The handle is stored in
  integer pixels (the computed \<open>double\<close>, centre included, with the fraction dropped), so
  it is on the circle and in the pointer's direction only up to that distance.
\<close>

theorem allAxis_outside_clamped:
  assumes "m_mode s = AllAxis" and "buttons event = LeftButton"
    and "0 \<le> travelRadius s"
    and "real_of_int (travelRadius s) < distance (rawOffset event s)"
    and "\<bar>err_x fe\<bar> \<le> d" and "\<bar>err_y fe\<bar> \<le> d"
  shows "\<exists>s' sigs. mouseMoveEvent fe event s = Inr (s', sigs) \<and>
           \<bar>real_of_int (xp (handlePos s')) -
              real_of_int (travelRadius s) *
                (real_of_int (xp (rawOffset event s)) / distance (rawOffset event s))\<bar> < 1 + d \<and>
           \<bar>real_of_int (yp (handlePos s')) -
              real_of_int (travelRadius s) *
                (real_of_int (yp (rawOffset event s)) / distance (rawOffset event s))\<bar> < 1 + d"
proof -
  have "\<not> contains (xp (rawOffset event s)) (yp (rawOffset event s)) (travelRadius s)"
    using assms(3,4) by (simp add: contains_iff_distance)
  note res = AllAxis_outside [OF assms(1,2) this, of fe]
  show ?thesis
    unfolding res
    using trunc_recentred [OF assms(5), of "real_of_int (travelRadius s) *
        (real_of_int (xp (rawOffset event s)) / distance (rawOffset event s))" "cpp_div (width s) 2"]
      trunc_recentred [OF assms(6), of "real_of_int (travelRadius s) *
        (real_of_int (yp (rawOffset event s)) / distance (rawOffset event s))" "cpp_div (height s) 2"]
    by (simp add: handlePos_simps)
qed

text \<open>
  The scenario of C1: travel radius 50 and pointer offset \<open>(100, 0)\<close>.  The circle point
  \<open>(50, 0)\<close> is whole and the computation is exact there (the arccosine of 1 is 0, whose
  cosine is 1 and whose sine is 0), so the handle is put at \<open>(50, 0)\<close>.
\<close>

theorem allAxis_outside_clamped_witness:
  "\<exists>s' sigs. mouseMoveEvent no_rounding \<lparr> buttons = LeftButton, ev_x = 175, ev_y = 75 \<rparr>
           (resizeEvent (Joystick_ctor 150 150)) = Inr (s', sigs) \<and>
     travelRadius (resizeEvent (Joystick_ctor 150 150)) = 50 \<and>
     rawOffset \<lparr> buttons = LeftButton, ev_x = 175, ev_y = 75 \<rparr>
           (resizeEvent (Joystick_ctor 150 150)) = \<lparr> xp = 100, yp = 0 \<rparr> \<and>
     handlePos s' = \<lparr> xp = 50, yp = 0 \<rparr>"
proof -
  let ?s = "resizeEvent (Joystick_ctor 150 150)"
  let ?e = "\<lparr> buttons = LeftButton, ev_x = 175, ev_y = 75 \<rparr>"
  have raw: "rawOffset ?e ?s = \<lparr> xp = 100, yp = 0 \<rparr>"
    by (simp add: resized_150 rawOffset_def translateTopLeftToCenter_def widgetSize_def cpp_div_def)
  have r: "travelRadius ?s = 50" by (simp add: resized_150 travelRadius_def)
  have d': "distance \<lparr> xp = 100, yp = 0 \<rparr> = 100" by (simp add: distance_def sqrt_10000)
  have d: "distance (rawOffset ?e ?s) = 100" by (simp add: raw d')
  have "m_mode ?s = AllAxis" by (simp add: resized_150)
  moreover have "buttons ?e = LeftButton" by simp
  moreover have "0 \<le> travelRadius ?s" by (simp add: r)
  moreover have "real_of_int (travelRadius ?s) < distance (rawOffset ?e ?s)" by (simp add: r d)
  moreover have "\<bar>err_x no_rounding\<bar> \<le> 0" and "\<bar>err_y no_rounding\<bar> \<le> 0"
    by (simp_all add: no_rounding_def)
  ultimately obtain s' sigs where res: "mouseMoveEvent no_rounding ?e ?s = Inr (s', sigs)"
    and hx: "\<bar>real_of_int (xp (handlePos s')) -
              real_of_int (travelRadius ?s) *
                (real_of_int (xp (rawOffset ?e ?s)) / distance (rawOffset ?e ?s))\<bar> < 1 + 0"
    and hy: "\<bar>real_of_int (yp (handlePos s')) -
              real_of_int (travelRadius ?s) *
                (real_of_int (yp (rawOffset ?e ?s)) / distance (rawOffset ?e ?s))\<bar> < 1 + 0"
    using allAxis_outside_clamped [of ?s ?e no_rounding 0] by blast
  from hx have "\<bar>real_of_int (xp (handlePos s')) - 50\<bar> < 1" by (simp add: r raw d')
  then have "xp (handlePos s') = 50" by linarith
  moreover from hy have "\<bar>real_of_int (yp (handlePos s'))\<bar> < 1" by (simp add: r raw d')
  then have "yp (handlePos s') = 0" by linarith
  ultimately have "handlePos s' = \<lparr> xp = 50, yp = 0 \<rparr>" by simp
  with res raw r show ?thesis by blast
qed

text \<open>
  C1 as stated fails: with travel radius 50 and pointer offset \<open>(100, 30)\<close> the handle
  lands at \<open>(47, 14)\<close>, whose distance from the centre is not 50 and whose direction is
  not that of the pointer (\<open>100 * 14 \<noteq> 30 * 47\<close>).  The pixel is the same for every
  rounding error up to a hundredth (\<open>clamp_100_30\<close>); it is stated here for the exact
  computation.
\<close>

theorem allAxis_outside_clamped_counterexample:
  "mouseMoveEvent no_rounding \<lparr> buttons = LeftButton, ev_x = 175, ev_y = 105 \<rparr>
       (resizeEvent (Joystick_ctor 150 150))
     = Inr ((resizeEvent (Joystick_ctor 150 150))\<lparr> m_controllerPosition := \<lparr> xp = 122, yp = 89 \<rparr> \<rparr>,
            [valueChanged 100 30, update]) \<and>
   travelRadius (resizeEvent (Joystick_ctor 150 150)) = 50 \<and>
   rawOffset \<lparr> buttons = LeftButton, ev_x = 175, ev_y = 105 \<rparr>
       (resizeEvent (Joystick_ctor 150 150)) = \<lparr> xp = 100, yp = 30 \<rparr> \<and>
   real_of_int 50 < distance \<lparr> xp = 100, yp = 30 \<rparr> \<and>
   handlePos ((resizeEvent (Joystick_ctor 150 150))\<lparr> m_controllerPosition := \<lparr> xp = 122, yp = 89 \<rparr> \<rparr>)
     = \<lparr> xp = 47, yp = 14 \<rparr> \<and>
   distance \<lparr> xp = 47, yp = 14 \<rparr> \<noteq> real_of_int 50 \<and>
   (100 :: int) * 14 \<noteq> 30 * 47"
proof -
  let ?s = "resizeEvent (Joystick_ctor 150 150)"
  let ?e = "\<lparr> buttons = LeftButton, ev_x = 175, ev_y = 105 \<rparr>"
  have raw: "rawOffset ?e ?s = \<lparr> xp = 100, yp = 30 \<rparr>"
    by (simp add: resized_150 rawOffset_def translateTopLeftToCenter_def widgetSize_def cpp_div_def)
  have r: "travelRadius ?s = 50" by (simp add: resized_150 travelRadius_def)
  have d: "distance \<lparr> xp = 100, yp = 30 \<rparr> = sqrt 10900" by (simp add: distance_def)
  have far: "real_of_int 50 < distance \<lparr> xp = 100, yp = 30 \<rparr>"
    unfolding d using sqrt_10900_bounds by simp
  have mv: "mouseMoveEvent no_rounding ?e ?s =
      Inr (?s\<lparr> m_controllerPosition := \<lparr> xp = 122, yp = 89 \<rparr> \<rparr>, [valueChanged 100 30, update])"
    by (rule clamp_100_30) (simp_all add: no_rounding_def)
  have hp: "handlePos (?s\<lparr> m_controllerPosition := \<lparr> xp = 122, yp = 89 \<rparr> \<rparr>) = \<lparr> xp = 47, yp = 14 \<rparr>"
    by (simp add: resized_150 handlePos_def translateTopLeftToCenter_def widgetSize_def cpp_div_def)
  have off: "distance \<lparr> xp = 47, yp = 14 \<rparr> \<noteq> real_of_int 50"
  proof
    assume "distance \<lparr> xp = 47, yp = 14 \<rparr> = real_of_int 50"
    then have "(sqrt 2405)\<^sup>2 = (50 :: real)\<^sup>2" by (simp add: distance_def)
    then show False by simp
  qed
  from mv r raw far hp off show ?thesis by simp
qed

text \<open>
  C2.  With both axes free and the left button held, a pointer whose distance from the
  centre is at most the travel radius takes the handle with it: the new handle position
  equals the pointer offset.
\<close>

theorem allAxis_inside_follows_pointer:
  assumes "m_mode s = AllAxis" and "buttons event = LeftButton"
    and "distance (rawOffset event s) \<le> real_of_int (travelRadius s)"
  shows "\<exists>s' sigs. mouseMoveEvent fe event s = Inr (s', sigs) \<and> handlePos s' = rawOffset event s"
proof -
  have "contains (xp (rawOffset event s)) (yp (rawOffset event s)) (travelRadius s)"
    using assms(3) by (rule distance_le_contains)
  from AllAxis_inside [OF assms(1,2) this, of fe] show ?thesis
    by (simp add: handlePos_def rawOffset_def widgetSize_def)
qed

text \<open>
  The boundary case of C2: the offset \<open>(30, 40)\<close> is at distance exactly 50.
\<close>

theorem allAxis_inside_follows_pointer_witness:
  "\<exists>s' sigs. mouseMoveEvent no_rounding \<lparr> buttons = LeftButton, ev_x = 105, ev_y = 115 \<rparr>
           (resizeEvent (Joystick_ctor 150 150)) = Inr (s', sigs) \<and>
     travelRadius (resizeEvent (Joystick_ctor 150 150)) = 50 \<and>
     distance \<lparr> xp = 30, yp = 40 \<rparr> = 50 \<and>
     handlePos s' = \<lparr> xp = 30, yp = 40 \<rparr>"
proof -
  let ?s = "resizeEvent (Joystick_ctor 150 150)"
  let ?e = "\<lparr> buttons = LeftButton, ev_x = 105, ev_y = 115 \<rparr>"
  have raw: "rawOffset ?e ?s = \<lparr> xp = 30, yp = 40 \<rparr>"
    by (simp add: resized_150 rawOffset_def translateTopLeftToCenter_def widgetSize_def cpp_div_def)
  have r: "travelRadius ?s = 50" by (simp add: resized_150 travelRadius_def)
  have d: "distance \<lparr> xp = 30, yp = 40 \<rparr> = 50" by (simp add: distance_def sqrt_2500)
  have "m_mode ?s = AllAxis" by (simp add: resized_150)
  moreover have "buttons ?e = LeftButton" by simp
  moreover have "distance (rawOffset ?e ?s) \<le> real_of_int (travelRadius ?s)" by (simp add: raw r d)
  ultimately have "\<exists>s' sigs. mouseMoveEvent no_rounding ?e ?s = Inr (s', sigs) \<and> handlePos s' = rawOffset ?e ?s"
    by (rule allAxis_inside_follows_pointer)
  with raw r d show ?thesis by simp
qed

section \<open>Dragging along one axis\<close>

text \<open>
  C3 (as amended).  With the left button held and movement restricted to the X axis,
  the handle's X coordinate becomes the pointer's when that lies strictly between
  \<open>- travelRadius\<close> and \<open>travelRadius\<close>, otherwise \<open>travelRadius\<close> for a positive pointer X
  and \<open>- travelRadius\<close> else; the handle's Y coordinate keeps the value it had before
  the move.  Restricted to the Y axis the roles of X and Y are exchanged.
\<close>

theorem singleAxis_move:
  assumes "buttons event = LeftButton"
  shows "(m_mode s = XAxisOnly \<longrightarrow>
            (\<exists>s' sigs. mouseMoveEvent fe event s = Inr (s', sigs) \<and>
               xp (handlePos s') =
                 (if - travelRadius s < xp (rawOffset event s) \<and> xp (rawOffset event s) < travelRadius s
                  then xp (rawOffset event s)
                  else if 0 < xp (rawOffset event s) then travelRadius s else - travelRadius s) \<and>
               yp (handlePos s') = yp (handlePos s))) \<and>
         (m_mode s = YAxisOnly \<longrightarrow>
            (\<exists>s' sigs. mouseMoveEvent fe event s = Inr (s', sigs) \<and>
               yp (handlePos s') =
                 (if - travelRadius s < yp (rawOffset event s) \<and> yp (rawOffset event s) < travelRadius s
                  then yp (rawOffset event s)
                  else if 0 < yp (rawOffset event s) then travelRadius s else - travelRadius s) \<and>
               xp (handlePos s') = xp (handlePos s)))"
proof (intro conjI impI)
  assume m: "m_mode s = XAxisOnly"
  show "\<exists>s' sigs. mouseMoveEvent fe event s = Inr (s', sigs) \<and>
               xp (handlePos s') =
                 (if - travelRadius s < xp (rawOffset event s) \<and> xp (rawOffset event s) < travelRadius s
                  then xp (rawOffset event s)
                  else if 0 < xp (rawOffset event s) then travelRadius s else - travelRadius s) \<and>
               yp (handlePos s') = yp (handlePos s)"
    unfolding XAxisOnly_move [OF m assms] by (simp add: handlePos_simps)
next
  assume m: "m_mode s = YAxisOnly"
  show "\<exists>s' sigs. mouseMoveEvent fe event s = Inr (s', sigs) \<and>
               yp (handlePos s') =
                 (if - travelRadius s < yp (rawOffset event s) \<and> yp (rawOffset event s) < travelRadius s
                  then yp (rawOffset event s)
                  else if 0 < yp (rawOffset event s) then travelRadius s else - travelRadius s) \<and>
               xp (handlePos s') = xp (handlePos s)"
    unfolding YAxisOnly_move [OF m assms] by (simp add: handlePos_simps)
qed

text \<open>
  The scenario of C3: from the centre, travel radius 50 and pointer offset \<open>(-80, 30)\<close>
  give the handle \<open>(-50, 0)\<close>; on the Y axis the offset \<open>(30, 20)\<close> gives \<open>(0, 20)\<close>.
\<close>

theorem singleAxis_move_witness:
  "(\<exists>s' sigs. mouseMoveEvent no_rounding \<lparr> buttons = LeftButton, ev_x = - 5, ev_y = 105 \<rparr>
         ((resizeEvent (Joystick_ctor 150 150))\<lparr> m_mode := XAxisOnly \<rparr>) = Inr (s', sigs) \<and>
      rawOffset \<lparr> buttons = LeftButton, ev_x = - 5, ev_y = 105 \<rparr>
         ((resizeEvent (Joystick_ctor 150 150))\<lparr> m_mode := XAxisOnly \<rparr>) = \<lparr> xp = - 80, yp = 30 \<rparr> \<and>
      handlePos s' = \<lparr> xp = - 50, yp = 0 \<rparr>) \<and>
   (\<exists>s' sigs. mouseMoveEvent no_rounding \<lparr> buttons = LeftButton, ev_x = 105, ev_y = 95 \<rparr>
         ((resizeEvent (Joystick_ctor 150 150))\<lparr> m_mode := YAxisOnly \<rparr>) = Inr (s', sigs) \<and>
      rawOffset \<lparr> buttons = LeftButton, ev_x = 105, ev_y = 95 \<rparr>
         ((resizeEvent (Joystick_ctor 150 150))\<lparr> m_mode := YAxisOnly \<rparr>) = \<lparr> xp = 30, yp = 20 \<rparr> \<and>
      handlePos s' = \<lparr> xp = 0, yp = 20 \<rparr>)"
proof -
  let ?sx = "(resizeEvent (Joystick_ctor 150 150))\<lparr> m_mode := XAxisOnly \<rparr>"
  let ?sy = "(resizeEvent (Joystick_ctor 150 150))\<lparr> m_mode := YAxisOnly \<rparr>"
  let ?ex = "\<lparr> buttons = LeftButton, ev_x = - 5, ev_y = 105 \<rparr>"
  let ?ey = "\<lparr> buttons = LeftButton, ev_x = 105, ev_y = 95 \<rparr>"
  have rawx: "rawOffset ?ex ?sx = \<lparr> xp = - 80, yp = 30 \<rparr>"
    by (simp add: resized_150 rawOffset_def translateTopLeftToCenter_def widgetSize_def cpp_div_def)
  have rawy: "rawOffset ?ey ?sy = \<lparr> xp = 30, yp = 20 \<rparr>"
    by (simp add: resized_150 rawOffset_def translateTopLeftToCenter_def widgetSize_def cpp_div_def)
  have facts: "travelRadius ?sx = 50" "travelRadius ?sy = 50"
    "handlePos ?sx = \<lparr> xp = 0, yp = 0 \<rparr>" "handlePos ?sy = \<lparr> xp = 0, yp = 0 \<rparr>"
    by (simp_all add: resized_150 travelRadius_def handlePos_def translateTopLeftToCenter_def
        widgetSize_def cpp_div_def)
  have bx: "buttons ?ex = LeftButton" and bty: "buttons ?ey = LeftButton" by simp_all
  have mx: "m_mode ?sx = XAxisOnly" and my: "m_mode ?sy = YAxisOnly" by simp_all
  from singleAxis_move [OF bx, of ?sx no_rounding] mx
  obtain s' sigs where "mouseMoveEvent no_rounding ?ex ?sx = Inr (s', sigs)"
    "xp (handlePos s') = - 50" "yp (handlePos s') = 0"
    unfolding rawx facts by auto
  then have X: "\<exists>s' sigs. mouseMoveEvent no_rounding ?ex ?sx = Inr (s', sigs) \<and> handlePos s' = \<lparr> xp = - 50, yp = 0 \<rparr>"
    by auto
  from singleAxis_move [OF bty, of ?sy no_rounding] my
  obtain t' sigs' where "mouseMoveEvent no_rounding ?ey ?sy = Inr (t', sigs')"
    "xp (handlePos t') = 0" "yp (handlePos t') = 20"
    unfolding rawy facts by auto
  then have Y: "\<exists>s' sigs. mouseMoveEvent no_rounding ?ey ?sy = Inr (s', sigs) \<and> handlePos s' = \<lparr> xp = 0, yp = 20 \<rparr>"
    by auto
  from X Y rawx rawy show ?thesis by simp
qed

text \<open>
  C3 as stated fails: the handle's Y coordinate is not 0 for every input.  Drag the
  handle to \<open>(10, 20)\<close> with both axes free, switch to the X axis, and move the pointer to
  \<open>(-80, 30)\<close>: the handle goes to \<open>(-50, 20)\<close>.
\<close>

theorem singleAxis_move_counterexample:
  "mouseMoveEvent no_rounding \<lparr> buttons = LeftButton, ev_x = 85, ev_y = 95 \<rparr> (resizeEvent (Joystick_ctor 150 150))
     = Inr ((resizeEvent (Joystick_ctor 150 150))\<lparr> m_controllerPosition := \<lparr> xp = 85, yp = 95 \<rparr> \<rparr>,
            [valueChanged 10 20, update]) \<and>
   setMode XAxisOnly ((resizeEvent (Joystick_ctor 150 150))\<lparr> m_controllerPosition := \<lparr> xp = 85, yp = 95 \<rparr> \<rparr>)
     = ((resizeEvent (Joystick_ctor 150 150))
          \<lparr> m_controllerPosition := \<lparr> xp = 85, yp = 95 \<rparr>, m_mode := XAxisOnly \<rparr>, [update]) \<and>
   rawOffset \<lparr> buttons = LeftButton, ev_x = - 5, ev_y = 105 \<rparr>
       ((resizeEvent (Joystick_ctor 150 150))
          \<lparr> m_controllerPosition := \<lparr> xp = 85, yp = 95 \<rparr>, m_mode := XAxisOnly \<rparr>)
     = \<lparr> xp = - 80, yp = 30 \<rparr> \<and>
   mouseMoveEvent no_rounding \<lparr> buttons = LeftButton, ev_x = - 5, ev_y = 105 \<rparr>
       ((resizeEvent (Joystick_ctor 150 150))
          \<lparr> m_controllerPosition := \<lparr> xp = 85, yp = 95 \<rparr>, m_mode := XAxisOnly \<rparr>)
     = Inr ((resizeEvent (Joystick_ctor 150 150))
              \<lparr> m_controllerPosition := \<lparr> xp = 25, yp = 95 \<rparr>, m_mode := XAxisOnly \<rparr>,
            [valueChanged (int_to_char (- 80)) 30, update]) \<and>
   handlePos ((resizeEvent (Joystick_ctor 150 150))
              \<lparr> m_controllerPosition := \<lparr> xp = 25, yp = 95 \<rparr>, m_mode := XAxisOnly \<rparr>)
     = \<lparr> xp = - 50, yp = 20 \<rparr> \<and>
   yp (handlePos ((resizeEvent (Joystick_ctor 150 150))
              \<lparr> m_controllerPosition := \<lparr> xp = 25, yp = 95 \<rparr>, m_mode := XAxisOnly \<rparr>)) \<noteq> 0"
  by (simp add: resized_150 mouseMoveEvent_def Let_def contains_def setMode_def cpp_div_def
      int_to_char_def rawOffset_def handlePos_def translateTopLeftToCenter_def widgetSize_def)

section \<open>Dragging with no axis free\<close>

text \<open>
  C4.  The claim (with no axis free, pointer moves leave the handle where it was and do
  not fail) is what the enumerator \<open>NoAxis\<close> asks for, and the program does not do it.
  \<open>setMode\<close> accepts \<open>NoAxis\<close> like any other mode, but the \<open>switch\<close> of the move handler
  has no case for it: a move with the left button held runs into \<open>default: throw;\<close>, a
  rethrow with no exception in flight, and the program is terminated.  Evaluated on a
  widget of 150 by 150 pixels, for a pointer at \<open>(100, 80)\<close>:
\<close>

theorem noAxis_move_terminates:
  "setMode NoAxis (resizeEvent (Joystick_ctor 150 150)) =
     ((resizeEvent (Joystick_ctor 150 150))\<lparr> m_mode := NoAxis \<rparr>, [update]) \<and>
   mouseMoveEvent fe \<lparr> buttons = LeftButton, ev_x = 100, ev_y = 80 \<rparr>
     ((resizeEvent (Joystick_ctor 150 150))\<lparr> m_mode := NoAxis \<rparr>) = Inl Terminate"
  by (simp add: setMode_def NoAxis_move)

section \<open>The reported axis values\<close>

text \<open>
  C5 (as amended).  With both axes free and the left button held, the move emits
  \<open>valueChanged\<close> with the unclamped pointer offsets converted to \<open>char\<close>, whether or not
  the handle has been clamped: each reported value is the offset modulo 256, and it is
  the offset itself whenever the offset fits a signed \<open>char\<close>.
\<close>

theorem allAxis_reports_chars:
  assumes "m_mode s = AllAxis" and "buttons event = LeftButton"
  shows "(\<exists>s'. mouseMoveEvent fe event s =
            Inr (s', [valueChanged (int_to_char (xp (rawOffset event s)))
                                   (int_to_char (yp (rawOffset event s))), update])) \<and>
         uint (int_to_char (xp (rawOffset event s))) = xp (rawOffset event s) mod 256 \<and>
         uint (int_to_char (yp (rawOffset event s))) = yp (rawOffset event s) mod 256 \<and>
         (- 128 \<le> xp (rawOffset event s) \<and> xp (rawOffset event s) \<le> 127 \<longrightarrow>
            sint (int_to_char (xp (rawOffset event s))) = xp (rawOffset event s)) \<and>
         (- 128 \<le> yp (rawOffset event s) \<and> yp (rawOffset event s) \<le> 127 \<longrightarrow>
            sint (int_to_char (yp (rawOffset event s))) = yp (rawOffset event s))"
  using AllAxis_total [OF assms, of fe] by (simp add: uint_int_to_char sint_int_to_char)

text \<open>
  The clamped move to the offset \<open>(100, 0)\<close> reports \<open>(100, 0)\<close>, not the handle's \<open>(50, 0)\<close>.
\<close>

theorem allAxis_reports_chars_witness:
  "(\<exists>s'. mouseMoveEvent no_rounding \<lparr> buttons = LeftButton, ev_x = 175, ev_y = 75 \<rparr>
           (resizeEvent (Joystick_ctor 150 150)) = Inr (s', [valueChanged 100 0, update])) \<and>
   rawOffset \<lparr> buttons = LeftButton, ev_x = 175, ev_y = 75 \<rparr>
           (resizeEvent (Joystick_ctor 150 150)) = \<lparr> xp = 100, yp = 0 \<rparr> \<and>
   sint (100 :: cchar) = 100 \<and> sint (0 :: cchar) = 0"
proof -
  let ?s = "resizeEvent (Joystick_ctor 150 150)"
  let ?e = "\<lparr> buttons = LeftButton, ev_x = 175, ev_y = 75 \<rparr>"
  have raw: "rawOffset ?e ?s = \<lparr> xp = 100, yp = 0 \<rparr>"
    by (simp add: resized_150 rawOffset_def translateTopLeftToCenter_def widgetSize_def cpp_div_def)
  have mode: "m_mode ?s = AllAxis" by (simp add: resized_150)
  have btn: "buttons ?e = LeftButton" by simp
  from allAxis_reports_chars [OF mode btn, of no_rounding] raw show ?thesis
    by (simp add: int_to_char_def)
qed

text \<open>
  C5 as stated fails: for the pointer offset \<open>(300, 0)\<close> the signal carries the
  \<open>char\<close> 44, which is 300 under neither reading of \<open>char\<close>.  (The handle's pixel is
  computed exactly at this offset, as at \<open>(100, 0)\<close>; the emitted values do not depend on
  the rounding at all.)
\<close>

theorem allAxis_reports_chars_counterexample:
  "rawOffset \<lparr> buttons = LeftButton, ev_x = 375, ev_y = 75 \<rparr> (resizeEvent (Joystick_ctor 150 150))
     = \<lparr> xp = 300, yp = 0 \<rparr> \<and>
   mouseMoveEvent no_rounding \<lparr> buttons = LeftButton, ev_x = 375, ev_y = 75 \<rparr> (resizeEvent (Joystick_ctor 150 150))
     = Inr ((resizeEvent (Joystick_ctor 150 150))\<lparr> m_controllerPosition := \<lparr> xp = 125, yp = 75 \<rparr> \<rparr>,
            [valueChanged 44 0, update]) \<and>
   sint (44 :: cchar) \<noteq> 300 \<and> uint (44 :: cchar) \<noteq> 300"
proof -
  let ?s = "resizeEvent (Joystick_ctor 150 150)"
  let ?e = "\<lparr> buttons = LeftButton, ev_x = 375, ev_y = 75 \<rparr>"
  have raw: "rawOffset ?e ?s = \<lparr> xp = 300, yp = 0 \<rparr>"
    by (simp add: resized_150 rawOffset_def translateTopLeftToCenter_def widgetSize_def cpp_div_def)
  have r: "travelRadius ?s = 50" by (simp add: resized_150 travelRadius_def)
  have d: "distance \<lparr> xp = 300, yp = 0 \<rparr> = 300" by (simp add: distance_def sqrt_90000)
  have out: "\<not> contains (xp (rawOffset ?e ?s)) (yp (rawOffset ?e ?s)) (travelRadius ?s)"
    by (simp add: raw r contains_def)
  have mode: "m_mode ?s = AllAxis" by (simp add: resized_150)
  have btn: "buttons ?e = LeftButton" by simp
  have ctr: "cpp_div (width ?s) 2 = 75" "cpp_div (height ?s) 2 = 75"
    by (simp_all add: resized_150 cpp_div_def)
  have mv: "mouseMoveEvent no_rounding ?e ?s =
          Inr (?s\<lparr> m_controllerPosition := \<lparr> xp = 125, yp = 75 \<rparr> \<rparr>, [valueChanged 44 0, update])"
    using AllAxis_outside [OF mode btn out, of no_rounding]
    by (simp add: raw r d ctr int_to_char_def double_to_int_def no_rounding_def)
  from raw mv show ?thesis by simp
qed

section \<open>Resizing\<close>

text \<open>
  C6.  For a widget of non-negative width and height (Qt widgets have no other), a
  resize sets the travel radius to \<open>min width height div 2 - min width height div 6\<close> and
  the handle's radius to half the travel radius, both with flooring division.
\<close>

theorem resize_radii:
  assumes "0 \<le> width s" and "0 \<le> height s"
  shows "getRadius (width s) (height s) =
           min (width s) (height s) div 2 - min (width s) (height s) div 6 \<and>
         travelRadius (resizeEvent s) = getRadius (width s) (height s) \<and>
         m_radius (m_controller (resizeEvent s)) = travelRadius (resizeEvent s) div 2"
proof -
  have "getRadius (width s) (height s) =
          min (width s) (height s) div 2 - min (width s) (height s) div 6"
    using assms by (simp add: getRadius_def cpp_div_nonneg)
  moreover have "travelRadius (resizeEvent s) = getRadius (width s) (height s)"
    by (simp add: travelRadius_def resizeEvent_def Let_def)
  moreover have "m_radius (m_controller (resizeEvent s)) = getRadius (width s) (height s) div 2"
    using getRadius_nonneg [OF assms] by (simp add: resizeEvent_def Let_def cpp_div_nonneg)
  ultimately show ?thesis by simp
qed

text \<open>
  The examples of C6: 300 by 200 gives \<open>(67, 33)\<close>, 100 by 100 gives \<open>(34, 17)\<close>.
\<close>

theorem resize_radii_witness:
  "travelRadius (resizeEvent (Joystick_ctor 300 200)) = 67 \<and>
   m_radius (m_controller (resizeEvent (Joystick_ctor 300 200))) = 33 \<and>
   travelRadius (resizeEvent (Joystick_ctor 100 100)) = 34 \<and>
   m_radius (m_controller (resizeEvent (Joystick_ctor 100 100))) = 17"
proof -
  have w: "width (Joystick_ctor 300 200) = 300" "height (Joystick_ctor 300 200) = 200"
    "width (Joystick_ctor 100 100) = 100" "height (Joystick_ctor 100 100) = 100"
    by (simp_all add: Joystick_ctor_def)
  have a: "0 \<le> width (Joystick_ctor 300 200)" "0 \<le> height (Joystick_ctor 300 200)"
    and b: "0 \<le> width (Joystick_ctor 100 100)" "0 \<le> height (Joystick_ctor 100 100)"
    by (simp_all add: w)
  from resize_radii [OF a] resize_radii [OF b] show ?thesis
    unfolding w by simp
qed

section \<open>The direction computation is defined\<close>

text \<open>
  With both axes free a pointer move always returns a state: it never ends in a domain
  error.  The clamping branch is entered only when the circle test fails, and then the
  pointer offset is not the origin, its distance from the origin is positive, and the
  argument of the arccosine lies in \<open>[-1, 1]\<close>.  This holds for every travel radius, in
  particular for the non-negative ones.
\<close>

lemma allAxis_direction_defined:
  "(m_mode s = AllAxis \<longrightarrow> (\<exists>s' sigs. mouseMoveEvent fe event s = Inr (s', sigs))) \<and>
   (\<not> contains x y r \<longrightarrow>
      (x, y) \<noteq> (0, 0) \<and>
      0 < sqrt ((real_of_int x)\<^sup>2 + (real_of_int y)\<^sup>2) \<and>
      - 1 \<le> real_of_int x / sqrt ((real_of_int x)\<^sup>2 + (real_of_int y)\<^sup>2) \<and>
      real_of_int x / sqrt ((real_of_int x)\<^sup>2 + (real_of_int y)\<^sup>2) \<le> 1)"
proof (intro conjI impI)
  assume m: "m_mode s = AllAxis"
  show "\<exists>s' sigs. mouseMoveEvent fe event s = Inr (s', sigs)"
  proof (cases "buttons event = LeftButton")
    case True
    from AllAxis_total [OF m True, of fe] show ?thesis by blast
  next
    case False
    then show ?thesis by (simp add: not_LeftButton_ignored)
  qed
next
  assume out: "\<not> contains x y r"
  then show "(x, y) \<noteq> (0, 0)" using contains_origin by auto
  from out show pos: "0 < sqrt ((real_of_int x)\<^sup>2 + (real_of_int y)\<^sup>2)"
    by (rule outside_distance_pos)
  from ratio_bounds [OF pos]
  show "- 1 \<le> real_of_int x / sqrt ((real_of_int x)\<^sup>2 + (real_of_int y)\<^sup>2)"
    and "real_of_int x / sqrt ((real_of_int x)\<^sup>2 + (real_of_int y)\<^sup>2) \<le> 1"
    by linarith+
qed

text \<open>
  C7.  The part of the claim about the clamping branch holds, as shown above.  Its last
  part, that every geometric operation is total over its documented input domain, is
  what the program should do and does not: with no axis free, a documented mode, the
  position mapping returns nothing for a pointer move with the left button held, it
  terminates the program in \<open>default: throw;\<close>.  Evaluated on a widget of 300 by 200
  pixels (travel radius 67), for a pointer at the widget's centre:
\<close>

theorem noAxis_move_not_total:
  "travelRadius ((resizeEvent (Joystick_ctor 300 200))\<lparr> m_mode := NoAxis \<rparr>) = 67 \<and>
   rawOffset \<lparr> buttons = LeftButton, ev_x = 150, ev_y = 100 \<rparr>
     ((resizeEvent (Joystick_ctor 300 200))\<lparr> m_mode := NoAxis \<rparr>) = \<lparr> xp = 0, yp = 0 \<rparr> \<and>
   mouseMoveEvent fe \<lparr> buttons = LeftButton, ev_x = 150, ev_y = 100 \<rparr>
     ((resizeEvent (Joystick_ctor 300 200))\<lparr> m_mode := NoAxis \<rparr>) = Inl Terminate \<and>
   \<not> (\<exists>s' sigs. mouseMoveEvent fe \<lparr> buttons = LeftButton, ev_x = 150, ev_y = 100 \<rparr>
     ((resizeEvent (Joystick_ctor 300 200))\<lparr> m_mode := NoAxis \<rparr>) = Inr (s', sigs))"
proof -
  let ?s = "(resizeEvent (Joystick_ctor 300 200))\<lparr> m_mode := NoAxis \<rparr>"
  let ?e = "\<lparr> buttons = LeftButton, ev_x = 150, ev_y = 100 \<rparr>"
  have r: "travelRadius ?s = 67"
    by (simp add: travelRadius_def resizeEvent_def Let_def Joystick_ctor_def getRadius_def
        cpp_div_def)
  have raw: "rawOffset ?e ?s = \<lparr> xp = 0, yp = 0 \<rparr>"
    by (simp add: rawOffset_def translateTopLeftToCenter_def widgetSize_def resizeEvent_def
        Let_def Joystick_ctor_def cpp_div_def)
  have t: "mouseMoveEvent fe ?e ?s = Inl Terminate"
    by (simp add: NoAxis_move)
  then have "\<not> (\<exists>s' sigs. mouseMoveEvent fe ?e ?s = Inr (s', sigs))" by simp
  with r raw t show ?thesis by (intro conjI)
qed

section \<open>Releasing the pointer\<close>

text \<open>
  C8.  When the return-to-centre flag is set, releasing the pointer puts the handle at
  the widget's centre, which is \<open>(0, 0)\<close> in recentred coordinates, whatever the travel
  radius, and asks for a repaint; when the flag is clear the release changes nothing
  and emits nothing.
\<close>

theorem release_returns_to_center:
  "(m_backToZero s \<longrightarrow>
      mouseReleaseEvent s = (s\<lparr> m_controllerPosition := getCenter (width s) (height s) \<rparr>, [update]) \<and>
      handlePos (fst (mouseReleaseEvent s)) = \<lparr> xp = 0, yp = 0 \<rparr>) \<and>
   (\<not> m_backToZero s \<longrightarrow> mouseReleaseEvent s = (s, []))"
  by (simp add: mouseReleaseEvent_def handlePos_def translateTopLeftToCenter_def widgetSize_def
      getCenter_def)

theorem release_returns_to_center_witness:
  "m_backToZero ((resizeEvent (Joystick_ctor 150 150))\<lparr> m_controllerPosition := \<lparr> xp = 85, yp = 95 \<rparr> \<rparr>) \<and>
   handlePos ((resizeEvent (Joystick_ctor 150 150))\<lparr> m_controllerPosition := \<lparr> xp = 85, yp = 95 \<rparr> \<rparr>)
     = \<lparr> xp = 10, yp = 20 \<rparr> \<and>
   handlePos (fst (mouseReleaseEvent
       ((resizeEvent (Joystick_ctor 150 150))\<lparr> m_controllerPosition := \<lparr> xp = 85, yp = 95 \<rparr> \<rparr>)))
     = \<lparr> xp = 0, yp = 0 \<rparr> \<and>
   \<not> m_backToZero (setBackToZero False
       ((resizeEvent (Joystick_ctor 150 150))\<lparr> m_controllerPosition := \<lparr> xp = 85, yp = 95 \<rparr> \<rparr>)) \<and>
   mouseReleaseEvent (setBackToZero False
       ((resizeEvent (Joystick_ctor 150 150))\<lparr> m_controllerPosition := \<lparr> xp = 85, yp = 95 \<rparr> \<rparr>))
     = (setBackToZero False
       ((resizeEvent (Joystick_ctor 150 150))\<lparr> m_controllerPosition := \<lparr> xp = 85, yp = 95 \<rparr> \<rparr>), [])"
proof -
  let ?s = "(resizeEvent (Joystick_ctor 150 150))\<lparr> m_controllerPosition := \<lparr> xp = 85, yp = 95 \<rparr> \<rparr>"
  have on: "m_backToZero ?s" by (simp add: resized_150)
  have off: "\<not> m_backToZero (setBackToZero False ?s)" by (simp add: setBackToZero_def)
  have h: "handlePos ?s = \<lparr> xp = 10, yp = 20 \<rparr>"
    by (simp add: resized_150 handlePos_def translateTopLeftToCenter_def widgetSize_def cpp_div_def)
  from release_returns_to_center [of ?s] on
  have a: "handlePos (fst (mouseReleaseEvent ?s)) = \<lparr> xp = 0, yp = 0 \<rparr>" by blast
  from release_returns_to_center [of "setBackToZero False ?s"] off
  have b: "mouseReleaseEvent (setBackToZero False ?s) = (setBackToZero False ?s, [])" by blast
  from on h a off b show ?thesis by (intro conjI)
qed

section \<open>Composing degrees of freedom\<close>

text \<open>
  C9.  With the enumerators numbered \<open>NoAxis = 0\<close>, \<open>XAxisOnly = 1\<close>,
  \<open>YAxisOnly = 2\<close>, \<open>AllAxis = 3\<close>: \<open>NoAxis | AllAxis = AllAxis\<close>,
  \<open>XAxisOnly & YAxisOnly = NoAxis\<close>, \<open>XAxisOnly | YAxisOnly = AllAxis\<close>, and both
  operators always yield one of the four enumerators.
\<close>

theorem mode_operators:
  "mode_or NoAxis AllAxis = Some AllAxis \<and>
   mode_and XAxisOnly YAxisOnly = Some NoAxis \<and>
   mode_or XAxisOnly YAxisOnly = Some AllAxis \<and>
   (\<forall>lhs rhs. mode_or lhs rhs \<noteq> None \<and> mode_and lhs rhs \<noteq> None)"
proof -
  have closed: "mode_or lhs rhs \<noteq> None \<and> mode_and lhs rhs \<noteq> None" for lhs rhs
    by (cases lhs; cases rhs) (simp_all add: mode_or_def mode_and_def mode_of_int_def)
  have "mode_or NoAxis AllAxis = Some AllAxis"
    and "mode_and XAxisOnly YAxisOnly = Some NoAxis"
    and "mode_or XAxisOnly YAxisOnly = Some AllAxis"
    by (simp_all add: mode_or_def mode_and_def mode_of_int_def)
  with closed show ?thesis by blast
qed

section \<open>Construction\<close>

text \<open>
  C10.  A newly constructed joystick returns to the centre on release
  (\<open>backToZero()\<close> is true), reports the axis values \<open>x() = 0\<close> and \<open>y() = 0\<close>, and its
  mode is \<open>AllAxis\<close>.
\<close>

theorem ctor_defaults:
  "backToZero (Joystick_ctor w h) = True \<and>
   Joystick_x (Joystick_ctor w h) = 0 \<and>
   Joystick_y (Joystick_ctor w h) = 0 \<and>
   mode (Joystick_ctor w h) = AllAxis"
  by (simp add: backToZero_def Joystick_x_def Joystick_y_def mode_def Joystick_ctor_def)

end
